theory Spec2Isabelle
  imports Main "HOL-Library.Word" "HOL-Library.Sublist"
begin

unbundle bit_operations_syntax

section \<open>Basic types of redasm.h\<close>

text \<open>
  The fixed-width typedefs of \<^verbatim>\<open>redasm.h\<close>. A signed type and the unsigned type of the same
  width share one word type: \<open>sint\<close> reads the signed value, \<open>unat\<close>/\<open>uint\<close> the unsigned
  one. \<^verbatim>\<open>size_t\<close> is taken to be 64 bits wide (an LP64 build).
\<close>

type_synonym u16 = "16 word"
type_synonym u32 = "32 word"
type_synonym s32 = "32 word"
type_synonym u64 = "64 word"
type_synonym s64 = "64 word"
type_synonym register_t = "64 word"
type_synonym address_t = "64 word"

text \<open>\<^verbatim>\<open>#define REGISTER_INVALID static_cast<s64>(-1)\<close>\<close>

definition REGISTER_INVALID :: register_t where
  "REGISTER_INVALID = - 1"

text \<open>\<^verbatim>\<open>namespace OperandTypes { enum: u32 { None = 0, Register, Immediate, Memory, Displacement } }\<close>.
  The field that holds one of them is a plain \<^verbatim>\<open>u32\<close>, so it is kept as a word.\<close>

definition OperandTypes_None :: u32 where "OperandTypes_None = 0"
definition OperandTypes_Register :: u32 where "OperandTypes_Register = 1"
definition OperandTypes_Immediate :: u32 where "OperandTypes_Immediate = 2"
definition OperandTypes_Memory :: u32 where "OperandTypes_Memory = 3"
definition OperandTypes_Displacement :: u32 where "OperandTypes_Displacement = 4"

section \<open>Operands\<close>

record RegisterOperand =
  reg_type :: u32
  reg_r :: register_t

text \<open>The three constructors of \<^verbatim>\<open>RegisterOperand\<close>.\<close>

definition RegisterOperand_default :: RegisterOperand where
  "RegisterOperand_default = \<lparr>reg_type = 0, reg_r = REGISTER_INVALID\<rparr>"

definition RegisterOperand_typed :: "u32 \<Rightarrow> register_t \<Rightarrow> RegisterOperand" where
  "RegisterOperand_typed t x = \<lparr>reg_type = t, reg_r = x\<rparr>"

definition RegisterOperand_of :: "register_t \<Rightarrow> RegisterOperand" where
  "RegisterOperand_of x = \<lparr>reg_type = 0, reg_r = x\<rparr>"

definition isValid :: "RegisterOperand \<Rightarrow> bool" where
  "isValid ro \<longleftrightarrow> reg_r ro \<noteq> REGISTER_INVALID"

record MemoryOperand =
  base :: RegisterOperand
  index :: RegisterOperand
  scale :: s32
  displacement :: s64

definition MemoryOperand_default :: MemoryOperand where
  "MemoryOperand_default =
     \<lparr>base = RegisterOperand_default, index = RegisterOperand_default, scale = 1, displacement = 0\<rparr>"

definition MemoryOperand_of ::
  "RegisterOperand \<Rightarrow> RegisterOperand \<Rightarrow> s32 \<Rightarrow> s64 \<Rightarrow> MemoryOperand" where
  "MemoryOperand_of b i sc d = \<lparr>base = b, index = i, scale = sc, displacement = d\<rparr>"

definition displacementOnly :: "MemoryOperand \<Rightarrow> bool" where
  "displacementOnly m \<longleftrightarrow> \<not> isValid (base m) \<and> \<not> isValid (index m)"

text \<open>
  \<^verbatim>\<open>Operand\<close>. The anonymous union of \<^verbatim>\<open>s_value\<close> and \<^verbatim>\<open>u_value\<close> is one 64-bit cell,
  \<open>op_value\<close>; \<open>s_value\<close> and \<open>u_value\<close> are its two readings.
\<close>

record Operand =
  op_type :: u32
  pos :: s32
  op_reg :: RegisterOperand
  op_mem :: MemoryOperand
  op_value :: u64

definition s_value :: "Operand \<Rightarrow> int" where
  "s_value operand = sint (op_value operand)"

definition u_value :: "Operand \<Rightarrow> nat" where
  "u_value operand = unat (op_value operand)"

text \<open>\<^verbatim>\<open>Operand(): type(OperandTypes::None), pos(-1), u_value(0)\<close>\<close>

definition Operand_default :: Operand where
  "Operand_default =
     \<lparr>op_type = OperandTypes_None, pos = - 1, op_reg = RegisterOperand_default,
      op_mem = MemoryOperand_default, op_value = 0\<rparr>"

text \<open>
  The four value constructors \<^verbatim>\<open>Operand(u32 type, T value, s32 pos)\<close> for
  \<^verbatim>\<open>T\<close> one of \<^verbatim>\<open>s32\<close>, \<^verbatim>\<open>u32\<close>, \<^verbatim>\<open>s64\<close>, \<^verbatim>\<open>u64\<close>: a 32-bit signed value is
  sign-extended into the cell, a 32-bit unsigned one zero-extended.
\<close>

datatype imm_value = S32 s32 | U32 u32 | S64 s64 | U64 u64

fun imm_cell :: "imm_value \<Rightarrow> u64" where
  "imm_cell (S32 v) = scast v"
| "imm_cell (U32 v) = ucast v"
| "imm_cell (S64 v) = v"
| "imm_cell (U64 v) = v"

definition Operand_of :: "u32 \<Rightarrow> imm_value \<Rightarrow> s32 \<Rightarrow> Operand" where
  "Operand_of t v p =
     \<lparr>op_type = t, pos = p, op_reg = RegisterOperand_default,
      op_mem = MemoryOperand_default, op_value = imm_cell v\<rparr>"

definition is_op :: "Operand \<Rightarrow> u32 \<Rightarrow> bool" where
  "is_op operand t \<longleftrightarrow> op_type operand = t"

section \<open>Instructions\<close>

text \<open>
  \<^verbatim>\<open>struct Instruction\<close>. The \<^verbatim>\<open>std::function<void(void*)> free\<close> is either empty
  (\<open>None\<close>) or holds a release routine, of which only the identity matters here (\<open>Some f\<close>).
  \<^verbatim>\<open>Segment* segment\<close> and \<^verbatim>\<open>void* userdata\<close> are addresses, with \<open>0\<close> for \<^verbatim>\<open>NULL\<close>.
\<close>

record Instruction =
  free :: "nat option"
  mnemonic :: string
  signature :: string
  operands :: "Operand list"
  comments :: "string list"
  address :: address_t
  ins_type :: u32
  ins_size :: u32
  segment :: u64
  userdata :: u64

text \<open>\<^verbatim>\<open>Instruction(): address(0), type(0), size(0), segment(NULL), userdata(NULL)\<close>\<close>

definition Instruction_default :: Instruction where
  "Instruction_default =
     \<lparr>free = None, mnemonic = [], signature = [], operands = [], comments = [],
      address = 0, ins_type = 0, ins_size = 0, segment = 0, userdata = 0\<rparr>"

definition endAddress :: "Instruction \<Rightarrow> address_t" where
  "endAddress ins = address ins + ucast (ins_size ins)"

text \<open>
  \<^verbatim>\<open>void reset() { type = 0; operands.clear(); if(free && userdata) { free(userdata); userdata = NULL; } }\<close>

  The call of the release routine is an effect outside the instruction: \<open>reset\<close> returns the
  updated instruction together with the calls it made, each as the routine and its argument.
\<close>

definition reset :: "Instruction \<Rightarrow> Instruction \<times> (nat \<times> u64) list" where
  "reset ins =
     (let ins1 = ins\<lparr>ins_type := 0\<rparr>;
          ins2 = ins1\<lparr>operands := []\<rparr>
      in case free ins2 of
           Some f \<Rightarrow>
             if userdata ins2 \<noteq> 0 then (ins2\<lparr>userdata := 0\<rparr>, [(f, userdata ins2)])
             else (ins2, [])
         | None \<Rightarrow> (ins2, []))"

text \<open>\<^verbatim>\<open>Instruction& cmt(const std::string& s) { comments.push_back(s); return *this; }\<close>\<close>

definition cmt :: "string \<Rightarrow> Instruction \<Rightarrow> Instruction" where
  "cmt s ins = ins\<lparr>comments := comments ins @ [s]\<rparr>"

text \<open>
  The builders. \<^verbatim>\<open>operands.size()\<close> is a \<^verbatim>\<open>size_t\<close>; stored into the \<^verbatim>\<open>s32\<close> field
  \<^verbatim>\<open>pos\<close> it keeps its low 32 bits.
\<close>

definition operands_size :: "Instruction \<Rightarrow> s32" where
  "operands_size ins = of_nat (length (operands ins))"

text \<open>\<^verbatim>\<open>Instruction& op(Operand op) { op.pos = operands.size(); operands.push_back(op); return *this; }\<close>\<close>

definition Instruction_op :: "Operand \<Rightarrow> Instruction \<Rightarrow> Instruction" where
  "Instruction_op operand ins =
     (let op1 = operand\<lparr>pos := operands_size ins\<rparr>
      in ins\<lparr>operands := operands ins @ [op1]\<rparr>)"

text \<open>\<^verbatim>\<open>Instruction& mem(address_t v) { operands.push_back(Operand(OperandTypes::Memory, v, operands.size())); ... }\<close>\<close>

definition Instruction_mem :: "address_t \<Rightarrow> Instruction \<Rightarrow> Instruction" where
  "Instruction_mem v ins =
     ins\<lparr>operands := operands ins @ [Operand_of OperandTypes_Memory (U64 v) (operands_size ins)]\<rparr>"

text \<open>\<^verbatim>\<open>template<typename T> Instruction& imm(T v) { operands.push_back(Operand(OperandTypes::Immediate, v, operands.size())); ... }\<close>\<close>

definition Instruction_imm :: "imm_value \<Rightarrow> Instruction \<Rightarrow> Instruction" where
  "Instruction_imm v ins =
     ins\<lparr>operands := operands ins @ [Operand_of OperandTypes_Immediate v (operands_size ins)]\<rparr>"

text \<open>
  \<^verbatim>\<open>Instruction& reg(register_t r, u64 type = 0)\<close>: the \<^verbatim>\<open>u64\<close> type is narrowed to the
  \<^verbatim>\<open>u32\<close> parameter of \<^verbatim>\<open>RegisterOperand(u32 type, register_t r)\<close>.
\<close>

definition Instruction_reg :: "register_t \<Rightarrow> u64 \<Rightarrow> Instruction \<Rightarrow> Instruction" where
  "Instruction_reg x t ins =
     (let op0 = Operand_default;
          op1 = op0\<lparr>pos := operands_size ins\<rparr>;
          op2 = op1\<lparr>op_type := OperandTypes_Register\<rparr>;
          op3 = op2\<lparr>op_reg := RegisterOperand_typed (ucast t) x\<rparr>
      in ins\<lparr>operands := operands ins @ [op3]\<rparr>)"

text \<open>
  \<^verbatim>\<open>disp(base, index, scale, displacement)\<close> and the two overloads that fill in
  \<^verbatim>\<open>REGISTER_INVALID\<close> for the index and \<open>1\<close> for the scale. The displacement of type
  \<^verbatim>\<open>T\<close> arrives converted to the \<^verbatim>\<open>s64\<close> parameter of \<^verbatim>\<open>MemoryOperand\<close>.
\<close>

definition Instruction_disp4 ::
  "register_t \<Rightarrow> register_t \<Rightarrow> s32 \<Rightarrow> s64 \<Rightarrow> Instruction \<Rightarrow> Instruction" where
  "Instruction_disp4 b i sc d ins =
     (let op0 = Operand_default;
          op1 = op0\<lparr>pos := operands_size ins\<rparr>;
          op2 = op1\<lparr>op_type := OperandTypes_Displacement\<rparr>;
          op3 = op2\<lparr>op_mem := MemoryOperand_of (RegisterOperand_of b) (RegisterOperand_of i) sc d\<rparr>
      in ins\<lparr>operands := operands ins @ [op3]\<rparr>)"

definition Instruction_disp3 ::
  "register_t \<Rightarrow> register_t \<Rightarrow> s64 \<Rightarrow> Instruction \<Rightarrow> Instruction" where
  "Instruction_disp3 b i d ins = Instruction_disp4 b i 1 d ins"

definition Instruction_disp2 :: "register_t \<Rightarrow> s64 \<Rightarrow> Instruction \<Rightarrow> Instruction" where
  "Instruction_disp2 b d ins = Instruction_disp3 b REGISTER_INVALID d ins"

text \<open>One builder call, and a chain of them \<^verbatim>\<open>ins.reg(..).imm(..)...\<close> applied left to right.\<close>

datatype append_call =
    Op Operand
  | Mem address_t
  | Imm imm_value
  | Reg register_t u64
  | Disp2 register_t s64
  | Disp3 register_t register_t s64
  | Disp4 register_t register_t s32 s64

fun append_operand :: "append_call \<Rightarrow> Instruction \<Rightarrow> Instruction" where
  "append_operand (Op operand) ins = Instruction_op operand ins"
| "append_operand (Mem v) ins = Instruction_mem v ins"
| "append_operand (Imm v) ins = Instruction_imm v ins"
| "append_operand (Reg x t) ins = Instruction_reg x t ins"
| "append_operand (Disp2 b d) ins = Instruction_disp2 b d ins"
| "append_operand (Disp3 b i d) ins = Instruction_disp3 b i d ins"
| "append_operand (Disp4 b i sc d) ins = Instruction_disp4 b i sc d ins"

fun append_all :: "append_call list \<Rightarrow> Instruction \<Rightarrow> Instruction" where
  "append_all [] ins = ins"
| "append_all (c # cs) ins = append_all cs (append_operand c ins)"

section \<open>Symbols\<close>

text \<open>
  Modelled from the spec: the declarations of \<^verbatim>\<open>Symbol\<close>, \<^verbatim>\<open>SymbolTypes\<close> and
  \<^verbatim>\<open>SymbolTable\<close> are not among the sources. A symbol has a name, an address and a kind
  (Import, Export, EntryPoint); the table's lookup \<^verbatim>\<open>symbol(address)\<close> yields the symbol
  defined at an address, or nothing (a null pointer in the callers below).
\<close>

datatype SymbolTypes = Import | Export | EntryPoint

record Symbol =
  name :: string
  sym_address :: address_t
  sym_type :: SymbolTypes

section \<open>The printer\<close>

text \<open>
  What \<^verbatim>\<open>Printer\<close> works with: the lookup of its symbol table, the virtual \<^verbatim>\<open>reg\<close>
  that a backend such as \<^verbatim>\<open>CapstonePrinter\<close> overrides, and the instances of the template
  \<^verbatim>\<open>REDasm::hex\<close> it calls (declared in \<^verbatim>\<open>support/utils.h\<close>, which is not among the
  sources): on an \<^verbatim>\<open>s64\<close>, on a \<^verbatim>\<open>u64\<close> and on an \<^verbatim>\<open>s32\<close>. Each of them is a parameter.
\<close>

record Printer =
  symbol :: "u64 \<Rightarrow> Symbol option"
  reg :: "RegisterOperand \<Rightarrow> string"
  hex_s64 :: "int \<Rightarrow> string"
  hex_u64 :: "nat \<Rightarrow> string"
  hex_s32 :: "int \<Rightarrow> string"

text \<open>
  \<^verbatim>\<open>std::string Printer::mem(const MemoryOperand &memop) const\<close>, statement by statement:
  \<open>s1\<close> after the base, \<open>s2\<close> after the index, \<open>s3\<close> after the displacement.
  The symbol table is asked with the displacement converted to an address, the same 64 bits.
\<close>

definition Printer_mem :: "Printer \<Rightarrow> MemoryOperand \<Rightarrow> string" where
  "Printer_mem p memop =
     (let s1 = (if isValid (base memop) then reg p (base memop) else []);
          s2 = (if isValid (index memop) then
                  (let a = (if s1 \<noteq> [] then s1 @ '' + '' else s1);
                       b = a @ reg p (index memop)
                   in if 1 < sint (scale memop) then b @ '' * '' @ hex_s32 p (sint (scale memop))
                      else b)
                else s1);
          s3 = (if displacement memop \<noteq> 0 then
                  (let sym = symbol p (displacement memop);
                       a = (if s2 \<noteq> [] \<and> (0 < sint (displacement memop) \<or> sym \<noteq> None)
                            then s2 @ '' + '' else s2)
                   in a @ (case sym of
                             Some y \<Rightarrow> name y
                           | None \<Rightarrow> hex_s64 p (sint (displacement memop))))
                else s2)
      in if s3 \<noteq> [] then ''['' @ s3 @ '']'' else [])"

text \<open>
  The body of the loop of \<^verbatim>\<open>Printer::out\<close> up to \<^verbatim>\<open>opstr\<close>: the text of one operand,
  or \<open>None\<close> where the loop takes \<^verbatim>\<open>continue\<close>. In the lookup
  \<^verbatim>\<open>symbol(is(Immediate) ? operand.s_value : operand.u_value)\<close> both arms of the conditional
  convert to \<^verbatim>\<open>u64\<close>, that is to the cell itself.
\<close>

definition opstr :: "Printer \<Rightarrow> Operand \<Rightarrow> string option" where
  "opstr p operand =
     (if is_op operand OperandTypes_Immediate \<or> is_op operand OperandTypes_Memory then
        (case symbol p (op_value operand) of
           Some y \<Rightarrow> Some (name y)
         | None \<Rightarrow>
             if is_op operand OperandTypes_Immediate then Some (hex_s64 p (s_value operand))
             else Some (hex_u64 p (u_value operand)))
      else if is_op operand OperandTypes_Displacement then Some (Printer_mem p (op_mem operand))
      else if is_op operand OperandTypes_Register then Some (reg p (op_reg operand))
      else None)"

text \<open>
  The loop over the operands. \<open>at_begin\<close> is \<^verbatim>\<open>it == operands.begin()\<close>; the accumulator is
  the string \<^verbatim>\<open>s\<close> and the calls of \<^verbatim>\<open>opfunc\<close> made so far (none when \<open>has_opfunc\<close> is
  false, the empty \<^verbatim>\<open>std::function\<close>).
\<close>

fun out_loop ::
  "Printer \<Rightarrow> bool \<Rightarrow> bool \<Rightarrow> Operand list \<Rightarrow> string \<times> (Operand \<times> string) list
     \<Rightarrow> string \<times> (Operand \<times> string) list" where
  "out_loop p has_opfunc at_begin [] acc = acc"
| "out_loop p has_opfunc at_begin (operand # rest) (s, calls) =
     (let s1 = (if \<not> at_begin then s @ '', '' else s)
      in case opstr p operand of
           None \<Rightarrow> out_loop p has_opfunc False rest (s1, calls)
         | Some t \<Rightarrow>
             out_loop p has_opfunc False rest
               (s1 @ t, if has_opfunc then calls @ [(operand, t)] else calls))"

text \<open>\<^verbatim>\<open>std::string Printer::out(const InstructionPtr &instruction, std::function<...> opfunc) const\<close>\<close>

definition Printer_out_opfunc ::
  "Printer \<Rightarrow> Instruction \<Rightarrow> bool \<Rightarrow> string \<times> (Operand \<times> string) list" where
  "Printer_out_opfunc p instruction has_opfunc =
     (let s = mnemonic instruction;
          s0 = (if operands instruction \<noteq> [] then s @ '' '' else s)
      in out_loop p has_opfunc True (operands instruction) (s0, []))"

text \<open>
  \<^verbatim>\<open>std::string Printer::out(const InstructionPtr &instruction) const\<close> passes a callback
  that does nothing and returns the string.
\<close>

definition Printer_out :: "Printer \<Rightarrow> Instruction \<Rightarrow> string" where
  "Printer_out p instruction = fst (Printer_out_opfunc p instruction True)"

section \<open>The import walk of the PE format\<close>

text \<open>
  Modelled from the spec: \<^verbatim>\<open>pe_headers.h\<close> is not among the sources. The import descriptor
  has the three 32-bit RVAs that \<^verbatim>\<open>readDescriptor\<close> reads.
\<close>

record ImageImportDescriptor =
  OriginalFirstThunk :: u32
  Name :: u32
  FirstThunk :: u32

datatype PeType = PeType_None | VisualBasic | Borland

text \<open>
  The state of \<^verbatim>\<open>PeFormat\<close> that \<^verbatim>\<open>readDescriptor\<close> reads and writes. \<open>defined\<close> holds the
  calls \<^verbatim>\<open>defineSymbol(address, name, type)\<close> made so far, oldest first; \<^verbatim>\<open>defineSymbol\<close>
  belongs to the plugin base class, which is not among the sources.
\<close>

record PeFormat =
  petype :: PeType
  imagebase :: u64
  sectionalignment :: u64
  entrypoint :: u64
  defined :: "Symbol list"

definition defineSymbol :: "address_t \<Rightarrow> string \<Rightarrow> SymbolTypes \<Rightarrow> PeFormat \<Rightarrow> PeFormat" where
  "defineSymbol a n t pe =
     pe\<lparr>defined := defined pe @ [\<lparr>name = n, sym_address = a, sym_type = t\<rparr>]\<rparr>"

text \<open>
  What \<^verbatim>\<open>readDescriptor\<close> reads through \<^verbatim>\<open>RVA_POINTER\<close> and the helpers it calls, none of
  them among the sources; each is a parameter. \<open>'t\<close> is the template parameter \<^verbatim>\<open>THUNK\<close>.
  \<^item> \<open>thunks_at rva\<close>: \<^verbatim>\<open>RVA_POINTER(THUNK, rva)\<close>, as the entries that the loaded image
    holds from that place to its end;
  \<^item> \<open>chars_at rva\<close>: the string at \<^verbatim>\<open>RVA_POINTER(const char, rva)\<close>;
  \<^item> \<open>importbyname_Name rva\<close>: the string at \<^verbatim>\<open>&RVA_POINTER(ImageImportByName, rva)->Name\<close>;
  \<^item> \<open>PEImports_importName dll ordinal\<close>: the name that \<^verbatim>\<open>PEImports::importName\<close> stores
    when it returns true, \<open>None\<close> when it returns false;
  \<^item> \<open>PEUtils_importName_ordinal\<close>, \<open>PEUtils_importName_name\<close>: the two overloads of
    \<^verbatim>\<open>PEUtils::importName\<close>.
\<close>

record 't PeImage =
  thunks_at :: "u64 \<Rightarrow> 't list"
  chars_at :: "u64 \<Rightarrow> string"
  importbyname_Name :: "u64 \<Rightarrow> string"
  PEImports_importName :: "string \<Rightarrow> u16 \<Rightarrow> string option"
  PEUtils_importName_ordinal :: "string \<Rightarrow> u16 \<Rightarrow> string"
  PEUtils_importName_name :: "string \<Rightarrow> string \<Rightarrow> string"

text \<open>\<^verbatim>\<open>sizeof(THUNK)\<close> for a thunk type of \<open>LENGTH('a)\<close> bits.\<close>

definition sizeof_THUNK :: "'a::len itself \<Rightarrow> nat" where
  "sizeof_THUNK ty = LENGTH('a) div 8"

text \<open>\<^verbatim>\<open>::tolower\<close> in the C locale.\<close>

definition tolower :: "char \<Rightarrow> char" where
  "tolower c =
     (let n = (of_char c :: nat) in if 65 \<le> n \<and> n \<le> 90 then char_of (n + 32) else c)"

text \<open>
  \<^verbatim>\<open>u16 ordinal = (ordinalflag ^ thunk[i])\<close>. The template parameter \<^verbatim>\<open>ordinalflag\<close> is an
  \<^verbatim>\<open>int\<close>: it is converted to the type of the thunk (kept as it is for a 32-bit thunk,
  sign-extended for a 64-bit one), and the result is narrowed to 16 bits.
\<close>

definition ordinal :: "s32 \<Rightarrow> 'a::len word \<Rightarrow> u16" where
  "ordinal ordinalflag t = ucast (scast ordinalflag XOR t)"

text \<open>
  Modelled from the spec: the constant that the caller passes for \<^verbatim>\<open>ordinalflag\<close> is not
  among the sources. For a 32-bit image the ordinal flag is bit 31, \<open>2^31\<close>; as the
  \<^verbatim>\<open>int\<close> template argument it is the value with that bit pattern.
\<close>

definition ORDINAL_FLAG32 :: s32 where
  "ORDINAL_FLAG32 = 0x80000000"

text \<open>The name of the import behind one thunk: the two branches of the loop body.\<close>

definition importname :: "'a::len word PeImage \<Rightarrow> s32 \<Rightarrow> string \<Rightarrow> 'a word \<Rightarrow> string" where
  "importname img ordinalflag descriptorname t =
     (if t AND scast ordinalflag = 0 then
        PEUtils_importName_name img descriptorname (importbyname_Name img (ucast t))
      else
        (let ord = ordinal ordinalflag t
         in case PEImports_importName img descriptorname ord of
              None \<Rightarrow> PEUtils_importName_ordinal img descriptorname ord
            | Some n \<Rightarrow> PEUtils_importName_name img descriptorname n))"

datatype pe_error = ReadPastEnd

text \<open>
  \<^verbatim>\<open>for(size_t i = 0; thunk[i]; i++)\<close>. The list argument holds the entries from
  \<^verbatim>\<open>thunk[i]\<close> on. Reading where the image holds no entry any more is an error here; the
  source reads on past its buffer.
\<close>

fun thunk_loop ::
  "'a::len word PeImage \<Rightarrow> s32 \<Rightarrow> string \<Rightarrow> ImageImportDescriptor \<Rightarrow> nat \<Rightarrow> 'a word list
     \<Rightarrow> PeFormat \<Rightarrow> pe_error + PeFormat" where
  "thunk_loop img ordinalflag descriptorname d i [] pe = Inl ReadPastEnd"
| "thunk_loop img ordinalflag descriptorname d i (t # rest) pe =
     (if t = 0 then Inr pe
      else
        (let addr = imagebase pe
                      + (ucast (FirstThunk d) + of_nat i * of_nat (sizeof_THUNK TYPE('a)));
             n = importname img ordinalflag descriptorname t
         in thunk_loop img ordinalflag descriptorname d (Suc i) rest
              (defineSymbol addr n Import pe)))"

text \<open>\<^verbatim>\<open>template<typename THUNK, int ordinalflag> void PeFormat::readDescriptor(const ImageImportDescriptor&)\<close>\<close>

definition readDescriptor ::
  "'a::len word PeImage \<Rightarrow> s32 \<Rightarrow> ImageImportDescriptor \<Rightarrow> PeFormat \<Rightarrow> pe_error + PeFormat" where
  "readDescriptor img ordinalflag d pe =
     (let thunk = thunks_at img
                    (ucast (if OriginalFirstThunk d \<noteq> 0 then OriginalFirstThunk d
                            else FirstThunk d));
          descriptorname = map tolower (chars_at img (ucast (Name d)));
          pe1 = (if sublist ''msvbvm'' descriptorname then pe\<lparr>petype := VisualBasic\<rparr> else pe)
      in thunk_loop img ordinalflag descriptorname d 0 thunk pe1)"

text \<open>
  The call \<^verbatim>\<open>defineSymbol(address, importname, SymbolTypes::Import)\<close> of the loop body for
  the thunk \<open>t\<close> read at index \<open>i\<close>.
\<close>

definition import_symbol ::
  "'a::len word PeImage \<Rightarrow> s32 \<Rightarrow> string \<Rightarrow> ImageImportDescriptor \<Rightarrow> PeFormat \<Rightarrow> nat \<times> 'a word \<Rightarrow> Symbol" where
  "import_symbol img ordinalflag dll d pe = (\<lambda>(i, t).
     \<lparr>name = importname img ordinalflag dll t,
      sym_address = imagebase pe + ucast (FirstThunk d) + of_nat i * of_nat (sizeof_THUNK TYPE('a)),
      sym_type = Import\<rparr>)"

section \<open>The rendering rules in the words of the specification\<close>

text \<open>Texts joined by a separator.\<close>

fun join :: "string \<Rightarrow> string list \<Rightarrow> string" where
  "join sep [] = []"
| "join sep [x] = x"
| "join sep (x # y # ys) = x @ sep @ join sep (y # ys)"

text \<open>
  The register terms of a displacement operand: the name of the base register if there is
  one, then the name of the index register if there is one, with the scale appended to it
  when the scale is above 1.
\<close>

definition register_terms :: "Printer \<Rightarrow> MemoryOperand \<Rightarrow> string list" where
  "register_terms p memop =
     (if isValid (base memop) then [reg p (base memop)] else []) @
     (if isValid (index memop) then
        [reg p (index memop) @
           (if 1 < sint (scale memop) then '' * '' @ hex_s32 p (sint (scale memop)) else [])]
      else [])"

text \<open>The displacement term: the name of the symbol at that value if there is one, else hexadecimal.\<close>

definition displacement_term :: "Printer \<Rightarrow> MemoryOperand \<Rightarrow> string" where
  "displacement_term p memop =
     (case symbol p (displacement memop) of
        Some y \<Rightarrow> name y
      | None \<Rightarrow> hex_s64 p (sint (displacement memop)))"

text \<open>
  The rule for a displacement operand as the specification words it: the terms that are
  present, joined by \<open>'' + ''\<close>, in brackets; the empty string when there is no term.
\<close>

definition spec_mem :: "Printer \<Rightarrow> MemoryOperand \<Rightarrow> string" where
  "spec_mem p memop =
     (let ts = register_terms p memop @
               (if displacement memop \<noteq> 0 then [displacement_term p memop] else [])
      in if ts = [] then [] else ''['' @ join '' + '' ts @ '']'')"

text \<open>
  The rule for an instruction as the specification words it: the mnemonic, then the texts
  of the operands that can be rendered, joined by \<open>'', ''\<close>.
\<close>

definition spec_out :: "Printer \<Rightarrow> Instruction \<Rightarrow> string" where
  "spec_out p instruction =
     mnemonic instruction @ (if operands instruction \<noteq> [] then '' '' else []) @
     join '', '' (List.map_filter (opstr p) (operands instruction))"

text \<open>Non-empty names: what the joining of terms takes for granted.\<close>

definition terms_nonempty :: "Printer \<Rightarrow> MemoryOperand \<Rightarrow> bool" where
  "terms_nonempty p memop \<longleftrightarrow>
     (isValid (base memop) \<longrightarrow> reg p (base memop) \<noteq> []) \<and>
     (isValid (index memop) \<longrightarrow> reg p (index memop) \<noteq> []) \<and>
     (displacement memop \<noteq> 0 \<longrightarrow> displacement_term p memop \<noteq> [])"

text \<open>The invariant of the builders: every operand is stamped with its index, as an \<^verbatim>\<open>s32\<close>.\<close>

definition pos_stamped :: "Instruction \<Rightarrow> bool" where
  "pos_stamped ins \<longleftrightarrow>
     list_all (\<lambda>(i, operand). pos operand = of_nat i) (List.enumerate 0 (operands ins))"

section \<open>Example inputs\<close>

text \<open>
  Modelled from the spec: \<^verbatim>\<open>REDasm::hex\<close> is declared in \<^verbatim>\<open>support/utils.h\<close>, which is not
  among the sources. A hexadecimal literal is \<open>0x\<close> followed by the digits, as in the
  specification's \<open>0x10\<close>; the signed form of a negative value carries a minus sign.
\<close>

fun hex_digits :: "nat \<Rightarrow> string" where
  "hex_digits n =
     (if n < 16 then [''0123456789abcdef'' ! n]
      else hex_digits (n div 16) @ [''0123456789abcdef'' ! (n mod 16)])"

definition hex_unsigned :: "nat \<Rightarrow> string" where
  "hex_unsigned n = ''0x'' @ hex_digits n"

definition hex_signed :: "int \<Rightarrow> string" where
  "hex_signed i = (if i < 0 then ''-'' @ hex_unsigned (nat (- i)) else hex_unsigned (nat i))"

text \<open>A backend that knows three registers, and a symbol table with one symbol.\<close>

definition example_reg :: "RegisterOperand \<Rightarrow> string" where
  "example_reg ro =
     (if reg_r ro = 19 then ''eax''
      else if reg_r ro = 21 then ''ebx''
      else if reg_r ro = 22 then ''ecx''
      else ''reg'')"

definition example_symbol :: "u64 \<Rightarrow> Symbol option" where
  "example_symbol a =
     (if a = 0x401000 then Some \<lparr>name = ''myFunc'', sym_address = 0x401000, sym_type = Export\<rparr>
      else None)"

definition example_printer :: Printer where
  "example_printer =
     \<lparr>symbol = example_symbol, reg = example_reg,
      hex_s64 = hex_signed, hex_u64 = hex_unsigned, hex_s32 = hex_signed\<rparr>"

text \<open>\<^verbatim>\<open>mov eax, [ebx + 0x10]\<close>, built with the builders.\<close>

definition example_mov :: Instruction where
  "example_mov =
     Instruction_disp2 21 0x10 (Instruction_reg 19 0 (Instruction_default\<lparr>mnemonic := ''mov''\<rparr>))"

text \<open>An instruction whose second operand is a default-constructed \<^verbatim>\<open>Operand()\<close>, of type \<^verbatim>\<open>None\<close>.\<close>

definition example_skipped :: Instruction where
  "example_skipped =
     Instruction_reg 21 0
       (Instruction_op Operand_default
          (Instruction_reg 19 0 (Instruction_default\<lparr>mnemonic := ''mov''\<rparr>)))"

text \<open>\<^verbatim>\<open>[ebx - 0x10]\<close>: a base register and a negative displacement with no symbol at it.\<close>

definition example_negative :: MemoryOperand where
  "example_negative =
     MemoryOperand_of (RegisterOperand_of 21) (RegisterOperand_of REGISTER_INVALID) 1 (- 0x10)"

text \<open>An instruction with a payload and no release routine, and one with both.\<close>

definition example_unowned :: Instruction where
  "example_unowned = Instruction_default\<lparr>userdata := 0x1000\<rparr>"

definition example_owned :: Instruction where
  "example_owned = (Instruction_reg 19 0 Instruction_default)\<lparr>free := Some 7, userdata := 0x1000\<rparr>"

text \<open>
  An image with one import descriptor whose two thunk tables differ: the table at
  \<^verbatim>\<open>OriginalFirstThunk\<close> (RVA \<open>0x2000\<close>) holds a name thunk, an ordinal thunk and the
  terminator; the table at \<^verbatim>\<open>FirstThunk\<close> (RVA \<open>0x2100\<close>) holds one bound address and
  the terminator.
\<close>

definition example_image :: "32 word PeImage" where
  "example_image =
     \<lparr>thunks_at = (\<lambda>rva. if rva = 0x2000 then [0x3000, 0x80000005, 0]
                          else if rva = 0x2100 then [0x77001234, 0] else []),
      chars_at = (\<lambda>rva. if rva = 0x2200 then ''USER32.dll'' else []),
      importbyname_Name = (\<lambda>rva. if rva = 0x3000 then ''MessageBoxA'' else []),
      PEImports_importName = (\<lambda>dll ord. None),
      PEUtils_importName_ordinal = (\<lambda>dll ord. dll @ ''!Ordinal__'' @ hex_digits (unat ord)),
      PEUtils_importName_name = (\<lambda>dll n. dll @ ''!'' @ n)\<rparr>"

text \<open>The same table in an image with 64-bit thunks, the ordinal thunk flagged by bit 63.\<close>

definition example_image64 :: "64 word PeImage" where
  "example_image64 =
     \<lparr>thunks_at = (\<lambda>rva. if rva = 0x2000 then [0x3000, 0x8000000000000005, 0] else []),
      chars_at = (\<lambda>rva. if rva = 0x2200 then ''USER32.dll'' else []),
      importbyname_Name = (\<lambda>rva. if rva = 0x3000 then ''MessageBoxA'' else []),
      PEImports_importName = (\<lambda>dll ord. None),
      PEUtils_importName_ordinal = (\<lambda>dll ord. dll @ ''!Ordinal__'' @ hex_digits (unat ord)),
      PEUtils_importName_name = (\<lambda>dll n. dll @ ''!'' @ n)\<rparr>"

definition example_descriptor :: ImageImportDescriptor where
  "example_descriptor = \<lparr>OriginalFirstThunk = 0x2000, Name = 0x2200, FirstThunk = 0x2100\<rparr>"

definition example_bound_descriptor :: ImageImportDescriptor where
  "example_bound_descriptor = \<lparr>OriginalFirstThunk = 0, Name = 0x2200, FirstThunk = 0x2100\<rparr>"

definition example_pe :: PeFormat where
  "example_pe =
     \<lparr>petype = PeType_None, imagebase = 0x400000, sectionalignment = 0x1000,
      entrypoint = 0x401000, defined = []\<rparr>"

section \<open>Resetting an instruction\<close>

text \<open>
  C10. \<^verbatim>\<open>reset\<close> writes the type flags, the operand sequence and the payload reference and
  nothing else: the address, the size, the mnemonic, the signature, the comments and the
  segment reference of the instruction (and the release routine it holds) are the same
  after the call as before it.
\<close>

theorem reset_frame:
  "address (fst (reset ins)) = address ins \<and>
   ins_size (fst (reset ins)) = ins_size ins \<and>
   mnemonic (fst (reset ins)) = mnemonic ins \<and>
   signature (fst (reset ins)) = signature ins \<and>
   comments (fst (reset ins)) = comments ins \<and>
   segment (fst (reset ins)) = segment ins \<and>
   free (fst (reset ins)) = free ins"
  by (simp add: reset_def Let_def split: option.split)

text \<open>
  C7, as the claim words it, fails on an instruction that carries a payload but no release
  routine: \<^verbatim>\<open>reset\<close> tests \<^verbatim>\<open>free && userdata\<close>, so it releases nothing and leaves the
  payload reference in place.
\<close>

theorem reset_keeps_unowned_payload:
  "free example_unowned = None \<and> userdata example_unowned = 0x1000 \<and>
   snd (reset example_unowned) = [] \<and> userdata (fst (reset example_unowned)) = 0x1000"
  by (simp add: example_unowned_def Instruction_default_def reset_def)

text \<open>
  C7, amended. \<^verbatim>\<open>reset\<close> always clears the operand sequence and the type flags. If a
  release routine is installed and a payload is present, it calls that routine once, on
  the payload, and clears the payload reference; otherwise it calls nothing and leaves the
  payload reference as it is. A second \<^verbatim>\<open>reset\<close> right after the first calls nothing, so
  two resets in a row make at most one release.
\<close>

theorem reset_releases_once:
  "operands (fst (reset ins)) = [] \<and>
   ins_type (fst (reset ins)) = 0 \<and>
   (free ins = Some f \<and> userdata ins \<noteq> 0 \<longrightarrow>
      snd (reset ins) = [(f, userdata ins)] \<and> userdata (fst (reset ins)) = 0) \<and>
   (free ins = None \<or> userdata ins = 0 \<longrightarrow>
      snd (reset ins) = [] \<and> userdata (fst (reset ins)) = userdata ins) \<and>
   snd (reset (fst (reset ins))) = [] \<and>
   length (snd (reset ins) @ snd (reset (fst (reset ins)))) \<le> 1"
  by (auto simp add: reset_def Let_def split: option.split)

theorem reset_releases_once_witness:
  "free example_owned = Some 7 \<and> userdata example_owned \<noteq> 0 \<and>
   snd (reset example_owned) = [(7, 0x1000)] \<and>
   userdata (fst (reset example_owned)) = 0 \<and>
   operands (fst (reset example_owned)) = [] \<and>
   snd (reset (fst (reset example_owned))) = [] \<and>
   free example_unowned = None \<and>
   snd (reset example_unowned) = [] \<and>
   userdata (fst (reset example_unowned)) = userdata example_unowned"
proof -
  have owned: "free example_owned = Some 7" "userdata example_owned = 0x1000"
    by (simp_all add: example_owned_def)
  have unowned: "free example_unowned = None"
    by (simp add: example_unowned_def Instruction_default_def)
  show ?thesis
    using reset_releases_once [of example_owned 7] reset_releases_once [of example_unowned]
      owned unowned
    by simp
qed

section \<open>The builders stamp the position\<close>

text \<open>Every builder appends exactly one operand, stamped with the count before the call.\<close>

lemma append_operand_shape:
  "\<exists>x. operands (append_operand c ins) = operands ins @ [x] \<and>
       pos x = of_nat (length (operands ins))"
  by (cases c)
    (simp_all add: Instruction_op_def Instruction_mem_def Instruction_imm_def
      Instruction_reg_def Instruction_disp2_def Instruction_disp3_def Instruction_disp4_def
      operands_size_def Operand_of_def Let_def)

lemma pos_stamped_iff:
  "pos_stamped ins \<longleftrightarrow> (\<forall>i < length (operands ins). pos (operands ins ! i) = of_nat i)"
  by (auto simp add: pos_stamped_def list_all_iff in_set_enumerate_eq)

lemma pos_stamped_append_operand:
  assumes "pos_stamped ins"
  shows "pos_stamped (append_operand c ins)"
proof -
  obtain x where x: "operands (append_operand c ins) = operands ins @ [x]"
    "pos x = of_nat (length (operands ins))"
    using append_operand_shape by blast
  show ?thesis
    using assms x by (auto simp add: pos_stamped_iff nth_append less_Suc_eq)
qed

lemma pos_stamped_append_all:
  "pos_stamped ins \<Longrightarrow> pos_stamped (append_all cs ins)"
  by (induction cs arbitrary: ins) (simp_all add: pos_stamped_append_operand)

lemma sint_of_nat_s32:
  assumes "n < 2 ^ 31"
  shows "sint (of_nat n :: 32 word) = int n"
proof -
  have "int n < 2 ^ 31" using assms by (metis of_nat_less_numeral_power_cancel_iff)
  have "sint (of_nat n :: 32 word) = sint (word_of_int (int n) :: 32 word)"
    by simp
  also have "\<dots> = signed_take_bit 31 (int n)"
    by (simp only: sint_sbintrunc') simp
  also have "\<dots> = int n"
    using \<open>int n < 2 ^ 31\<close> by (simp add: signed_take_bit_int_eq_self)
  finally show ?thesis .
qed

text \<open>
  C9. Each builder call (\<^verbatim>\<open>op\<close>, \<^verbatim>\<open>mem\<close>, \<^verbatim>\<open>imm\<close>, \<^verbatim>\<open>reg\<close>, \<^verbatim>\<open>disp\<close>) appends one
  operand whose \<^verbatim>\<open>pos\<close> is the number of operands that were in the sequence before the call,
  stored as an \<^verbatim>\<open>s32\<close> (and read back as that very number for any count below \<open>2^31\<close>).
  Hence, starting from an instruction whose operands are stamped with their indices (a new
  one, or one that was reset), after any chain of builder calls the operand at index \<open>i\<close> has
  \<^verbatim>\<open>pos == i\<close>.
\<close>

theorem append_stamps_position:
  "(\<exists>x. operands (append_operand c ins) = operands ins @ [x] \<and>
        pos x = of_nat (length (operands ins)) \<and>
        (length (operands ins) < 2 ^ 31 \<longrightarrow> sint (pos x) = int (length (operands ins)))) \<and>
   (pos_stamped ins \<longrightarrow>
      (\<forall>i < length (operands (append_all cs ins)).
         pos (operands (append_all cs ins) ! i) = of_nat i \<and>
         (i < 2 ^ 31 \<longrightarrow> sint (pos (operands (append_all cs ins) ! i)) = int i)))"
proof (intro conjI impI allI)
  obtain x where x: "operands (append_operand c ins) = operands ins @ [x]"
    "pos x = of_nat (length (operands ins))"
    using append_operand_shape by blast
  then show "\<exists>x. operands (append_operand c ins) = operands ins @ [x] \<and>
        pos x = of_nat (length (operands ins)) \<and>
        (length (operands ins) < 2 ^ 31 \<longrightarrow> sint (pos x) = int (length (operands ins)))"
    by (auto simp add: sint_of_nat_s32)
next
  fix i
  assume st: "pos_stamped ins" and i: "i < length (operands (append_all cs ins))"
  have "pos_stamped (append_all cs ins)"
    using st by (rule pos_stamped_append_all)
  then have eq: "pos (operands (append_all cs ins) ! i) = of_nat i"
    using i by (simp add: pos_stamped_iff)
  then show "pos (operands (append_all cs ins) ! i) = of_nat i" .
  show "i < 2 ^ 31 \<Longrightarrow> sint (pos (operands (append_all cs ins) ! i)) = int i"
    by (simp add: eq sint_of_nat_s32)
qed

lemma pos_stamped_reset: "pos_stamped (fst (reset ins))"
  by (simp add: pos_stamped_def reset_def Let_def split: option.split)

lemma pos_stamped_default: "pos_stamped Instruction_default"
  by (simp add: pos_stamped_def Instruction_default_def)

theorem append_stamps_position_witness:
  "pos_stamped Instruction_default \<and>
   map pos (operands (append_all [Reg 19 0, Disp2 21 0x10, Imm (S32 5), Mem 0x401000, Op Operand_default]
      Instruction_default)) = [0, 1, 2, 3, 4] \<and>
   map (\<lambda>x. sint (pos x)) (operands (append_all [Reg 19 0, Disp2 21 0x10, Imm (S32 5), Mem 0x401000, Op Operand_default]
      Instruction_default)) = [0, 1, 2, 3, 4]"
  using append_stamps_position [of "Reg 19 0" Instruction_default "[Reg 19 0, Disp2 21 0x10, Imm (S32 5), Mem 0x401000, Op Operand_default]"]
    pos_stamped_default
  by (simp add: Instruction_op_def Instruction_mem_def Instruction_imm_def
      Instruction_reg_def Instruction_disp2_def Instruction_disp3_def Instruction_disp4_def
      operands_size_def Operand_of_def Let_def Instruction_default_def Operand_default_def)

section \<open>The printer renders operands\<close>

text \<open>
  What the loop of \<^verbatim>\<open>Printer::out\<close> computes: the separator goes in front of every operand
  but the first, before the operand is looked at, so an operand that the loop skips still
  stands in the output as an empty text between two separators.
\<close>

lemma join_Cons: "join sep (x # xs) = x @ (if xs = [] then [] else sep @ join sep xs)"
  by (cases xs) simp_all

lemma out_loop_text:
  "fst (out_loop p cb b ops (s, calls)) =
     s @ (if b \<or> ops = [] then [] else '', '') @
     join '', '' (map (\<lambda>operand. case opstr p operand of None \<Rightarrow> [] | Some t \<Rightarrow> t) ops)"
proof (induction ops arbitrary: b s calls)
  case Nil
  show ?case by simp
next
  case (Cons operand rest)
  show ?case
    by (cases "opstr p operand") (simp_all add: Cons.IH join_Cons Let_def)
qed

lemma Printer_out_text:
  "Printer_out p instruction =
     mnemonic instruction @ (if operands instruction \<noteq> [] then '' '' else []) @
     join '', '' (map (\<lambda>operand. case opstr p operand of None \<Rightarrow> [] | Some t \<Rightarrow> t)
       (operands instruction))"
  by (simp add: Printer_out_def Printer_out_opfunc_def Let_def out_loop_text)

lemma map_filter_all_Some:
  "\<forall>x \<in> set xs. f x \<noteq> None \<Longrightarrow>
   List.map_filter f xs = map (\<lambda>x. case f x of None \<Rightarrow> d | Some t \<Rightarrow> t) xs"
  by (induction xs) (auto simp add: List.map_filter_simps split: option.split)

text \<open>Where every operand can be rendered, the code and the specification's rule agree.\<close>

lemma Printer_out_all_renderable:
  assumes "\<forall>operand \<in> set (operands instruction). opstr p operand \<noteq> None"
  shows "Printer_out p instruction = spec_out p instruction"
  using assms by (simp add: Printer_out_text spec_out_def map_filter_all_Some [where d = "[]"])

text \<open>
  C5. In the output of \<^verbatim>\<open>Printer::out\<close>, for any instruction, the text that stands for an
  Immediate or a Memory operand is the name of the symbol that the symbol table holds at
  the operand's value, and otherwise the hexadecimal literal of the value (of its signed
  reading for an Immediate, of its unsigned reading for a Memory operand). The function is
  total: an unknown symbol is no failure.
\<close>

theorem out_immediate_memory:
  "Printer_out p instruction =
     mnemonic instruction @ (if operands instruction \<noteq> [] then '' '' else []) @
     join '', ''
       (map (\<lambda>operand.
               if is_op operand OperandTypes_Immediate then
                 (case symbol p (op_value operand) of
                    Some y \<Rightarrow> name y
                  | None \<Rightarrow> hex_s64 p (s_value operand))
               else if is_op operand OperandTypes_Memory then
                 (case symbol p (op_value operand) of
                    Some y \<Rightarrow> name y
                  | None \<Rightarrow> hex_u64 p (u_value operand))
               else (case opstr p operand of None \<Rightarrow> [] | Some t \<Rightarrow> t))
          (operands instruction))"
proof -
  have "(case opstr p operand of None \<Rightarrow> [] | Some t \<Rightarrow> t) =
        (if is_op operand OperandTypes_Immediate then
           (case symbol p (op_value operand) of
              Some y \<Rightarrow> name y
            | None \<Rightarrow> hex_s64 p (s_value operand))
         else if is_op operand OperandTypes_Memory then
           (case symbol p (op_value operand) of
              Some y \<Rightarrow> name y
            | None \<Rightarrow> hex_u64 p (u_value operand))
         else (case opstr p operand of None \<Rightarrow> [] | Some t \<Rightarrow> t))" for operand
    by (simp add: opstr_def split: option.split)
  then show ?thesis
    by (simp only: Printer_out_text)
qed

theorem out_immediate_memory_witness:
  "Printer_out example_printer
     (Instruction_mem 0x401000 (Instruction_imm (S32 (- 2)) (Instruction_mem 0x10
        (Instruction_default\<lparr>mnemonic := ''call''\<rparr>)))) = ''call 0x10, -0x2, myFunc''"
  using out_immediate_memory [of example_printer "Instruction_mem 0x401000 (Instruction_imm (S32 (- 2)) (Instruction_mem 0x10
        (Instruction_default\<lparr>mnemonic := ''call''\<rparr>)))"]
  by (simp add: Instruction_mem_def Instruction_imm_def Operand_of_def operands_size_def
      Instruction_default_def is_op_def OperandTypes_Immediate_def OperandTypes_Memory_def
      example_printer_def example_symbol_def hex_signed_def hex_unsigned_def s_value_def u_value_def)

text \<open>
  C4, as the claim words it, fails for a negative displacement with no symbol at it: the
  code puts \<open>'' + ''\<close> in front of the displacement only when the displacement is positive
  or a symbol stands for it, so \<^verbatim>\<open>[ebx - 0x10]\<close> is not joined by \<open>'' + ''\<close>.
\<close>

theorem mem_negative_displacement:
  "Printer_mem example_printer example_negative = ''[ebx-0x10]'' \<and>
   spec_mem example_printer example_negative = ''[ebx + -0x10]''"
  by (simp add: Printer_mem_def spec_mem_def register_terms_def displacement_term_def
      example_negative_def example_printer_def MemoryOperand_of_def RegisterOperand_of_def
      isValid_def REGISTER_INVALID_def example_reg_def example_symbol_def hex_signed_def
      hex_unsigned_def)

text \<open>
  C4, amended. With non-empty register names and displacement text, \<^verbatim>\<open>Printer::mem\<close>
  renders the bracketed terms that are present (base; index, with \<open>'' * scale''\<close> when the
  scale is above 1; displacement as symbol name or else hexadecimal) joined by \<open>'' + ''\<close>,
  except that a negative displacement with no symbol at it is appended to the register
  terms with no separator. A zero displacement is left out. With no base, no index and no
  displacement the result is the empty string, and the result is never \<open>''[]''\<close>.
\<close>

theorem mem_rendering:
  "(terms_nonempty p memop \<longrightarrow>
      Printer_mem p memop =
        (if displacement memop \<noteq> 0 \<and> \<not> 0 < sint (displacement memop) \<and>
            symbol p (displacement memop) = None \<and> register_terms p memop \<noteq> []
         then ''['' @ join '' + '' (register_terms p memop) @ displacement_term p memop @ '']''
         else spec_mem p memop)) \<and>
   (\<not> isValid (base memop) \<and> \<not> isValid (index memop) \<and> displacement memop = 0 \<longrightarrow>
      Printer_mem p memop = []) \<and>
   Printer_mem p memop \<noteq> ''[]''"
proof (intro conjI impI)
  assume ne: "terms_nonempty p memop"
  show "Printer_mem p memop =
        (if displacement memop \<noteq> 0 \<and> \<not> 0 < sint (displacement memop) \<and>
            symbol p (displacement memop) = None \<and> register_terms p memop \<noteq> []
         then ''['' @ join '' + '' (register_terms p memop) @ displacement_term p memop @ '']''
         else spec_mem p memop)"
    using ne
    by (cases "symbol p (displacement memop)")
      (auto simp add: Printer_mem_def spec_mem_def register_terms_def displacement_term_def
        terms_nonempty_def Let_def)
next
  assume "\<not> isValid (base memop) \<and> \<not> isValid (index memop) \<and> displacement memop = 0"
  then show "Printer_mem p memop = []"
    by (simp add: Printer_mem_def)
next
  show "Printer_mem p memop \<noteq> ''[]''"
    by (simp add: Printer_mem_def Let_def)
qed


theorem mem_rendering_witness:
  "terms_nonempty example_printer example_negative \<and>
   Printer_mem example_printer example_negative = ''[ebx-0x10]'' \<and>
   terms_nonempty example_printer
     (MemoryOperand_of (RegisterOperand_of 21) (RegisterOperand_of 22) 4 0x401000) \<and>
   Printer_mem example_printer
     (MemoryOperand_of (RegisterOperand_of 21) (RegisterOperand_of 22) 4 0x401000) =
     ''[ebx + ecx * 0x4 + myFunc]'' \<and>
   Printer_mem example_printer MemoryOperand_default = []"
  using mem_rendering [of example_printer example_negative]
    mem_rendering [of example_printer
      "MemoryOperand_of (RegisterOperand_of 21) (RegisterOperand_of 22) 4 0x401000"]
    mem_rendering [of example_printer MemoryOperand_default]
  by (simp add: Printer_mem_def spec_mem_def register_terms_def displacement_term_def
      terms_nonempty_def
      example_negative_def example_printer_def MemoryOperand_of_def RegisterOperand_of_def
      MemoryOperand_default_def RegisterOperand_default_def
      isValid_def REGISTER_INVALID_def example_reg_def example_symbol_def hex_signed_def
      hex_unsigned_def)

text \<open>
  C3. On an instruction with a register, a default-constructed operand (type \<^verbatim>\<open>None\<close>) and
  another register, \<^verbatim>\<open>Printer::out\<close> has already appended the separator when it skips the
  second operand: the output has two separators in a row, where the rule of the
  specification gives one.
\<close>

theorem out_skipped_operand:
  "Printer_out example_printer example_skipped = ''mov eax, , ebx'' \<and>
   spec_out example_printer example_skipped = ''mov eax, ebx''"
  by (simp add: Printer_out_def Printer_out_opfunc_def spec_out_def example_skipped_def
      Instruction_reg_def Instruction_op_def Instruction_default_def Operand_default_def
      operands_size_def opstr_def is_op_def OperandTypes_Immediate_def OperandTypes_Memory_def
      OperandTypes_Register_def OperandTypes_Displacement_def OperandTypes_None_def
      RegisterOperand_typed_def example_printer_def example_reg_def)

text \<open>
  C6. An instruction \<^verbatim>\<open>mov\<close> with a Register operand that the backend names \<^verbatim>\<open>eax\<close> and a
  Displacement operand with a base register named \<^verbatim>\<open>ebx\<close>, no index register and the
  displacement \<open>0x10\<close>, at which no symbol is defined and which \<^verbatim>\<open>REDasm::hex\<close> writes as
  \<^verbatim>\<open>0x10\<close>, renders as \<^verbatim>\<open>mov eax, [ebx + 0x10]\<close>.
\<close>

theorem out_mov_scenario:
  assumes "mnemonic instruction = ''mov''"
    and "operands instruction = [op1, op2]"
    and "is_op op1 OperandTypes_Register"
    and "reg p (op_reg op1) = ''eax''"
    and "is_op op2 OperandTypes_Displacement"
    and "isValid (base (op_mem op2))"
    and "reg p (base (op_mem op2)) = ''ebx''"
    and "\<not> isValid (index (op_mem op2))"
    and "displacement (op_mem op2) = 0x10"
    and "symbol p 0x10 = None"
    and "hex_s64 p 0x10 = ''0x10''"
  shows "Printer_out p instruction = ''mov eax, [ebx + 0x10]''"
  using assms
  by (simp add: Printer_out_def Printer_out_opfunc_def opstr_def is_op_def Printer_mem_def
      OperandTypes_Immediate_def OperandTypes_Memory_def
      OperandTypes_Register_def OperandTypes_Displacement_def)

theorem out_mov_scenario_witness:
  "Printer_out example_printer example_mov = ''mov eax, [ebx + 0x10]''"
  by (rule out_mov_scenario [where ?op1.0 = "hd (operands example_mov)" and ?op2.0 = "last (operands example_mov)"])
   (simp_all add: example_mov_def Instruction_disp2_def Instruction_disp3_def Instruction_disp4_def
      Instruction_reg_def Instruction_default_def Operand_default_def operands_size_def
      is_op_def OperandTypes_Register_def OperandTypes_Displacement_def
      RegisterOperand_typed_def RegisterOperand_of_def MemoryOperand_of_def isValid_def
      REGISTER_INVALID_def example_printer_def example_reg_def example_symbol_def
      hex_signed_def hex_unsigned_def)

section \<open>The ordinal of a thunk\<close>

text \<open>Narrowing to 16 bits commutes with the bitwise operations and forgets the high bits.\<close>

lemma ucast_xor_u16:
  "(ucast (a XOR b :: 'a::len word) :: 16 word) = ucast a XOR ucast b"
  by (rule bit_word_eqI) (auto simp add: bit_simps)

lemma ucast_or_u16:
  "(ucast (a OR b :: 'a::len word) :: 16 word) = ucast a OR ucast b"
  by (rule bit_word_eqI) (auto simp add: bit_simps)

lemma ucast_scast_u16:
  "16 \<le> LENGTH('a) \<Longrightarrow> (ucast (scast (f :: 32 word) :: 'a::len word) :: 16 word) = ucast f"
  by (rule bit_word_eqI) (auto simp add: bit_simps)

lemma ordinal_low16:
  fixes t :: "'a::len word"
  assumes "16 \<le> LENGTH('a)" and "(ucast f :: 16 word) = 0"
  shows "ordinal f t = ucast t"
  using assms by (simp add: ordinal_def ucast_xor_u16 ucast_scast_u16)

lemma ucast_of_nat_u16:
  "16 \<le> LENGTH('a) \<Longrightarrow> (ucast (of_nat n :: 'a::len word) :: 16 word) = of_nat n"
  by (rule bit_word_eqI) (auto simp add: bit_simps)

lemma unat_of_nat_u16: "unat (of_nat n :: 16 word) = n mod 2 ^ 16"
  by (simp add: unat_of_nat)

lemma flag32_low16: "(ucast ORDINAL_FLAG32 :: 16 word) = 0"
  by (simp add: ORDINAL_FLAG32_def)

lemma ordinal32:
  "ordinal ORDINAL_FLAG32 ((0x80000000 :: 32 word) OR of_nat n) = of_nat n"
proof -
  have h: "(ucast (0x80000000 :: 32 word) :: 16 word) = 0"
    by simp
  have "ordinal ORDINAL_FLAG32 ((0x80000000 :: 32 word) OR of_nat n) =
        ucast ((0x80000000 :: 32 word) OR of_nat n)"
    by (rule ordinal_low16) (simp_all add: flag32_low16)
  also have "\<dots> = ucast (0x80000000 :: 32 word) OR ucast (of_nat n :: 32 word)"
    by (rule ucast_or_u16)
  also have "\<dots> = of_nat n"
    by (simp only: h ucast_of_nat_u16 [where 'a = 32, simplified] or.left_neutral)
  finally show ?thesis .
qed

lemma ordinal64:
  assumes "(ucast f :: 16 word) = 0"
  shows "ordinal f ((0x8000000000000000 :: 64 word) OR of_nat n) = of_nat n"
proof -
  have h: "(ucast (0x8000000000000000 :: 64 word) :: 16 word) = 0"
    by simp
  have "ordinal f ((0x8000000000000000 :: 64 word) OR of_nat n) =
        ucast ((0x8000000000000000 :: 64 word) OR of_nat n)"
    by (rule ordinal_low16) (simp_all add: assms)
  also have "\<dots> = ucast (0x8000000000000000 :: 64 word) OR ucast (of_nat n :: 64 word)"
    by (rule ucast_or_u16)
  also have "\<dots> = of_nat n"
    by (simp only: h ucast_of_nat_u16 [where 'a = 64, simplified] or.left_neutral)
  finally show ?thesis .
qed

lemma flag32_branch:
  "((0x80000000 :: 32 word) OR of_nat n) AND scast ORDINAL_FLAG32 \<noteq> 0"
proof -
  have "bit (((0x80000000 :: 32 word) OR of_nat n) AND scast ORDINAL_FLAG32) 31"
    by (simp add: bit_simps ORDINAL_FLAG32_def)
  then show ?thesis by auto
qed

lemma importname_ordinal32:
  "importname img ORDINAL_FLAG32 dll ((0x80000000 :: 32 word) OR of_nat n) =
     (case PEImports_importName img dll (of_nat n) of
        None \<Rightarrow> PEUtils_importName_ordinal img dll (of_nat n)
      | Some s \<Rightarrow> PEUtils_importName_name img dll s)"
  unfolding importname_def
  by (simp only: flag32_branch if_False ordinal32 Let_def)

text \<open>
  C2, as the claim words it, fails for \<open>N = 0x10000\<close>, which is below the flag \<open>2^31\<close>:
  the ordinal is stored in a \<^verbatim>\<open>u16\<close>, so the thunk \<open>0x80010000\<close> yields the ordinal \<open>0\<close>.
\<close>

theorem ordinal_truncated:
  "(0x10000 :: nat) < 2 ^ 31 \<and>
   unat (ordinal ORDINAL_FLAG32 ((0x80000000 :: 32 word) OR of_nat 0x10000)) = 0"
  by (simp add: ordinal_def ORDINAL_FLAG32_def)

text \<open>
  For 64-bit thunks: the \<^verbatim>\<open>int\<close> flag is sign-extended, so it is never the single bit 63;
  the value with the bit pattern of \<open>2^31\<close> still makes the walk take a thunk with bit 63
  set for an ordinal, and the value 0 makes it take none.
\<close>

lemma scast_not_flag64: "scast (f :: 32 word) \<noteq> (0x8000000000000000 :: 64 word)"
proof
  assume eq: "scast f = (0x8000000000000000 :: 64 word)"
  have b63: "bit (0x8000000000000000 :: 64 word) 63" by simp
  have b31: "\<not> bit (0x8000000000000000 :: 64 word) 31" by simp
  have "bit (scast f :: 64 word) 63 \<longleftrightarrow> bit f 31"
    by (simp add: bit_signed_iff)
  moreover have "bit (scast f :: 64 word) 31 \<longleftrightarrow> bit f 31"
    by (simp add: bit_signed_iff)
  ultimately show False
    using b63 b31 by (simp add: eq)
qed

lemma flag32_branch64:
  "((0x8000000000000000 :: 64 word) OR of_nat n) AND scast ORDINAL_FLAG32 \<noteq> 0"
proof -
  have "bit (((0x8000000000000000 :: 64 word) OR of_nat n) AND scast ORDINAL_FLAG32) 63"
    by (simp add: bit_simps ORDINAL_FLAG32_def)
  then show ?thesis by auto
qed

lemma importname_ordinal64:
  fixes img :: "64 word PeImage"
  assumes "((0x8000000000000000 :: 64 word) OR of_nat n) AND scast f \<noteq> 0"
    and "(ucast f :: 16 word) = 0"
  shows "importname img f dll ((0x8000000000000000 :: 64 word) OR of_nat n) =
     (case PEImports_importName img dll (of_nat n) of
        None \<Rightarrow> PEUtils_importName_ordinal img dll (of_nat n)
      | Some s \<Rightarrow> PEUtils_importName_name img dll s)"
  unfolding importname_def
  by (simp only: assms(1) if_False ordinal64 [OF assms(2)] Let_def)

lemma importname_flag_zero:
  "importname img 0 dll t = PEUtils_importName_name img dll (importbyname_Name img (ucast t))"
  by (simp add: importname_def)

text \<open>
  C2, amended. For a 32-bit thunk with the ordinal flag \<open>2^31\<close> set and lower bits \<open>N\<close>
  (\<open>N < 2^31\<close>), the walk names the import by the ordinal \<open>N\<close> narrowed to 16 bits,
  \<open>N mod 2^16\<close>, which is \<open>N\<close> itself for every \<open>N < 2^16\<close>. For a 64-bit thunk the flag
  \<open>2^63\<close> cannot be passed, since \<^verbatim>\<open>ordinalflag\<close> is an \<^verbatim>\<open>int\<close>: no \<^verbatim>\<open>int\<close> converts to
  \<open>2^63\<close>. With an \<^verbatim>\<open>int\<close> flag \<open>f\<close> whose low 16 bits are clear, the walk names the import
  behind the thunk \<open>2^63 OR N\<close> (\<open>N < 2^63\<close>) by the ordinal \<open>N mod 2^16\<close> whenever the
  thunk and the sign-extended \<open>f\<close> have a bit in common; that is so for the \<^verbatim>\<open>int\<close> with the
  bit pattern of \<open>2^31\<close>, while with \<open>f = 0\<close> the walk takes every thunk for the RVA of a name.
\<close>

theorem ordinal_low_bits:
  fixes img32 :: "32 word PeImage" and img64 :: "64 word PeImage" and f :: s32
  shows
  "(n < 2 ^ 31 \<longrightarrow>
      unat (ordinal ORDINAL_FLAG32 ((0x80000000 :: 32 word) OR of_nat n)) = n mod 2 ^ 16 \<and>
      importname img32 ORDINAL_FLAG32 dll ((0x80000000 :: 32 word) OR of_nat n) =
        (case PEImports_importName img32 dll (of_nat n) of
           None \<Rightarrow> PEUtils_importName_ordinal img32 dll (of_nat n)
         | Some s \<Rightarrow> PEUtils_importName_name img32 dll s)) \<and>
   (n < 2 ^ 16 \<longrightarrow>
      unat (ordinal ORDINAL_FLAG32 ((0x80000000 :: 32 word) OR of_nat n)) = n) \<and>
   scast f \<noteq> (0x8000000000000000 :: 64 word) \<and>
   (n < 2 ^ 63 \<and> ((0x8000000000000000 :: 64 word) OR of_nat n) AND scast f \<noteq> 0 \<and>
      (ucast f :: 16 word) = 0 \<longrightarrow>
      unat (ordinal f ((0x8000000000000000 :: 64 word) OR of_nat n)) = n mod 2 ^ 16 \<and>
      importname img64 f dll ((0x8000000000000000 :: 64 word) OR of_nat n) =
        (case PEImports_importName img64 dll (of_nat n) of
           None \<Rightarrow> PEUtils_importName_ordinal img64 dll (of_nat n)
         | Some s \<Rightarrow> PEUtils_importName_name img64 dll s)) \<and>
   (n < 2 ^ 63 \<longrightarrow>
      importname img64 ORDINAL_FLAG32 dll ((0x8000000000000000 :: 64 word) OR of_nat n) =
        (case PEImports_importName img64 dll (of_nat n) of
           None \<Rightarrow> PEUtils_importName_ordinal img64 dll (of_nat n)
         | Some s \<Rightarrow> PEUtils_importName_name img64 dll s)) \<and>
   importname img64 0 dll t =
     PEUtils_importName_name img64 dll (importbyname_Name img64 (ucast t))"
proof (intro conjI impI)
  show "unat (ordinal ORDINAL_FLAG32 ((0x80000000 :: 32 word) OR of_nat n)) = n mod 2 ^ 16"
    by (simp only: ordinal32 unat_of_nat_u16)
  show "importname img32 ORDINAL_FLAG32 dll ((0x80000000 :: 32 word) OR of_nat n) =
        (case PEImports_importName img32 dll (of_nat n) of
           None \<Rightarrow> PEUtils_importName_ordinal img32 dll (of_nat n)
         | Some s \<Rightarrow> PEUtils_importName_name img32 dll s)"
    by (rule importname_ordinal32)
  show "unat (ordinal ORDINAL_FLAG32 ((0x80000000 :: 32 word) OR of_nat n)) = n"
    if "n < 2 ^ 16"
    using that by (simp only: ordinal32 unat_of_nat_u16) simp
  show "scast f \<noteq> (0x8000000000000000 :: 64 word)"
    by (rule scast_not_flag64)
  show "unat (ordinal f ((0x8000000000000000 :: 64 word) OR of_nat n)) = n mod 2 ^ 16"
    if "n < 2 ^ 63 \<and> ((0x8000000000000000 :: 64 word) OR of_nat n) AND scast f \<noteq> 0 \<and>
        (ucast f :: 16 word) = 0"
    using that by (simp only: ordinal64 unat_of_nat_u16)
  show "importname img64 f dll ((0x8000000000000000 :: 64 word) OR of_nat n) =
        (case PEImports_importName img64 dll (of_nat n) of
           None \<Rightarrow> PEUtils_importName_ordinal img64 dll (of_nat n)
         | Some s \<Rightarrow> PEUtils_importName_name img64 dll s)"
    if "n < 2 ^ 63 \<and> ((0x8000000000000000 :: 64 word) OR of_nat n) AND scast f \<noteq> 0 \<and>
        (ucast f :: 16 word) = 0"
    using that by (intro importname_ordinal64) simp_all
  show "importname img64 ORDINAL_FLAG32 dll ((0x8000000000000000 :: 64 word) OR of_nat n) =
        (case PEImports_importName img64 dll (of_nat n) of
           None \<Rightarrow> PEUtils_importName_ordinal img64 dll (of_nat n)
         | Some s \<Rightarrow> PEUtils_importName_name img64 dll s)"
    by (rule importname_ordinal64 [OF flag32_branch64 flag32_low16])
  show "importname img64 0 dll t =
     PEUtils_importName_name img64 dll (importbyname_Name img64 (ucast t))"
    by (rule importname_flag_zero)
qed

theorem ordinal_low_bits_witness:
  "(5 :: nat) < 2 ^ 16 \<and>
   unat (ordinal ORDINAL_FLAG32 (0x80000005 :: 32 word)) = 5 \<and>
   importname example_image ORDINAL_FLAG32 ''user32.dll'' 0x80000005 = ''user32.dll!Ordinal__5'' \<and>
   (0x8000000000000005 :: 64 word) AND scast ORDINAL_FLAG32 \<noteq> 0 \<and>
   (ucast ORDINAL_FLAG32 :: 16 word) = 0 \<and>
   unat (ordinal ORDINAL_FLAG32 (0x8000000000000005 :: 64 word)) = 5 \<and>
   importname example_image64 ORDINAL_FLAG32 ''user32.dll'' 0x8000000000000005 =
     ''user32.dll!Ordinal__5'' \<and>
   importname example_image64 0 ''user32.dll'' 0x8000000000000005 = ''user32.dll!''"
  using ordinal_low_bits [of 5 example_image "''user32.dll''" ORDINAL_FLAG32 example_image64
      "0x8000000000000005"]
  by (simp add: ORDINAL_FLAG32_def importname_def ordinal_def example_image_def
      example_image64_def)

section \<open>The import walk\<close>

text \<open>
  The loop as a whole: it succeeds exactly when the entries hold a zero, and then it has
  made one call of \<^verbatim>\<open>defineSymbol\<close> for each entry in front of the first zero, in order.
\<close>

lemma thunk_loop_result:
  fixes ts :: "'a::len word list"
  shows "thunk_loop img ordinalflag dll d i ts pe =
     (if 0 \<in> set ts then
        Inr (pe\<lparr>defined := defined pe @
               map (import_symbol img ordinalflag dll d pe)
                 (List.enumerate i (takeWhile (\<lambda>t. t \<noteq> 0) ts))\<rparr>)
      else Inl ReadPastEnd)"
proof (induction ts arbitrary: i pe)
  case Nil
  show ?case by simp
next
  case (Cons t rest)
  show ?case
  proof (cases "t = 0")
    case True
    then show ?thesis by simp
  next
    case False
    have ib: "imagebase (defineSymbol a n k pe) = imagebase pe" for a n k
      by (simp add: defineSymbol_def)
    have sym: "import_symbol img ordinalflag dll d (defineSymbol a n k pe) =
               import_symbol img ordinalflag dll d pe" for a n k
      by (simp add: import_symbol_def ib)
    show ?thesis
      using False
      by (simp add: Cons.IH Let_def sym)
        (simp add: defineSymbol_def import_symbol_def add.assoc)
  qed
qed


lemma readDescriptor_result:
  fixes img :: "'a::len word PeImage"
  shows "readDescriptor img ordinalflag d pe =
     (let tbl = (if OriginalFirstThunk d \<noteq> 0 then thunks_at img (ucast (OriginalFirstThunk d))
                 else thunks_at img (ucast (FirstThunk d)));
          dll = map tolower (chars_at img (ucast (Name d)));
          pe1 = (if sublist ''msvbvm'' dll then pe\<lparr>petype := VisualBasic\<rparr> else pe)
      in if 0 \<in> set tbl then
           Inr (pe1\<lparr>defined := defined pe @
                  map (import_symbol img ordinalflag dll d pe)
                    (List.enumerate 0 (takeWhile (\<lambda>t. t \<noteq> 0) tbl))\<rparr>)
         else Inl ReadPastEnd)"
  by (simp add: readDescriptor_def thunk_loop_result Let_def import_symbol_def)

lemma import_symbol_names:
  "map name (map (import_symbol img ordinalflag dll d pe) (List.enumerate k ts)) =
   map (importname img ordinalflag dll) ts"
  by (induction ts arbitrary: k) (simp_all add: import_symbol_def)

lemma import_symbol_addresses:
  fixes img :: "'a::len word PeImage"
  shows "map sym_address (map (import_symbol img ordinalflag dll d pe) (List.enumerate 0 ts)) =
   map (\<lambda>i. imagebase pe + ucast (FirstThunk d) + of_nat i * of_nat (sizeof_THUNK TYPE('a)))
     [0..<length ts]"
proof -
  let ?g = "\<lambda>i. imagebase pe + ucast (FirstThunk d) + of_nat i * of_nat (sizeof_THUNK TYPE('a))"
  have "map sym_address (map (import_symbol img ordinalflag dll d pe) (List.enumerate 0 ts)) =
        map (?g \<circ> fst) (List.enumerate 0 ts)"
    by (simp add: import_symbol_def case_prod_unfold comp_def)
  also have "\<dots> = map ?g (map fst (List.enumerate 0 ts))"
    by (simp only: map_map)
  also have "\<dots> = map ?g [0..<length ts]"
    by (simp only: map_fst_enumerate add_0)
  finally show ?thesis .
qed

lemma import_symbol_types:
  "list_all (\<lambda>y. sym_type y = Import)
     (map (import_symbol img ordinalflag dll d pe) (List.enumerate k ts))"
  by (simp add: list_all_iff import_symbol_def case_prod_unfold)

lemma sizeof_THUNK_32_64: "sizeof_THUNK TYPE(32) = 4 \<and> sizeof_THUNK TYPE(64) = 8"
  by (simp add: sizeof_THUNK_def)

text \<open>
  C1. When \<^verbatim>\<open>readDescriptor\<close> returns, the symbols it has added are named after the thunk
  values of the table at \<^verbatim>\<open>OriginalFirstThunk\<close> if that field is non-zero and of the table
  at \<^verbatim>\<open>FirstThunk\<close> otherwise, while the address of the \<open>i\<close>-th of them is in either case
  \<^verbatim>\<open>imagebase + FirstThunk + i * sizeof(THUNK)\<close> in 64-bit arithmetic, where
  \<^verbatim>\<open>sizeof(THUNK)\<close> is 4 for 32-bit thunks and 8 for 64-bit thunks.
\<close>

theorem readDescriptor_thunks_and_addresses:
  fixes img :: "'a::len word PeImage"
  assumes "readDescriptor img ordinalflag d pe = Inr pe'"
  shows "(let tbl = (if OriginalFirstThunk d \<noteq> 0 then thunks_at img (ucast (OriginalFirstThunk d))
                     else thunks_at img (ucast (FirstThunk d)));
              new = drop (length (defined pe)) (defined pe')
          in defined pe' = defined pe @ new \<and>
             map name new =
               map (importname img ordinalflag (map tolower (chars_at img (ucast (Name d)))))
                 (takeWhile (\<lambda>t. t \<noteq> 0) tbl) \<and>
             map sym_address new =
               map (\<lambda>i. imagebase pe + ucast (FirstThunk d) +
                          of_nat i * of_nat (sizeof_THUNK TYPE('a)))
                 [0..<length new]) \<and>
         sizeof_THUNK TYPE(32) = 4 \<and> sizeof_THUNK TYPE(64) = 8"
proof -
  define tbl where "tbl = (if OriginalFirstThunk d \<noteq> 0 then thunks_at img (ucast (OriginalFirstThunk d))
                     else thunks_at img (ucast (FirstThunk d)))"
  define dll where "dll = map tolower (chars_at img (ucast (Name d)))"
  define syms where "syms = map (import_symbol img ordinalflag dll d pe)
                    (List.enumerate 0 (takeWhile (\<lambda>t. t \<noteq> 0) tbl))"
  have "defined pe' = defined pe @ syms"
    using assms
    by (auto simp add: readDescriptor_result Let_def tbl_def dll_def syms_def split: if_splits)
  then have new: "drop (length (defined pe)) (defined pe') = syms" and
    app: "defined pe' = defined pe @ syms"
    by simp_all
  have n: "map name syms = map (importname img ordinalflag dll) (takeWhile (\<lambda>t. t \<noteq> 0) tbl)"
    unfolding syms_def by (rule import_symbol_names)
  have len: "length syms = length (takeWhile (\<lambda>t. t \<noteq> 0) tbl)"
    by (simp add: syms_def)
  have a: "map sym_address syms =
      map (\<lambda>i. imagebase pe + ucast (FirstThunk d) + of_nat i * of_nat (sizeof_THUNK TYPE('a)))
        [0..<length syms]"
    unfolding len unfolding syms_def by (rule import_symbol_addresses)
  show ?thesis
    unfolding Let_def new tbl_def [symmetric] dll_def [symmetric]
    using app n a sizeof_THUNK_32_64 by simp
qed


text \<open>The walk over the example image, evaluated.\<close>

lemma example_walk:
  "readDescriptor example_image ORDINAL_FLAG32 example_descriptor example_pe =
     Inr (example_pe\<lparr>defined :=
       [\<lparr>name = ''user32.dll!MessageBoxA'', sym_address = 0x402100, sym_type = Import\<rparr>,
        \<lparr>name = ''user32.dll!Ordinal__5'', sym_address = 0x402104, sym_type = Import\<rparr>]\<rparr>)"
  by (simp add: readDescriptor_def example_image_def example_descriptor_def example_pe_def
      ORDINAL_FLAG32_def importname_def ordinal_def defineSymbol_def sizeof_THUNK_def
      tolower_def char_of_eq_iff sublist_code Let_def)

lemma example_bound_walk:
  "readDescriptor example_image ORDINAL_FLAG32 example_bound_descriptor example_pe =
     Inr (example_pe\<lparr>defined :=
       [\<lparr>name = ''user32.dll!'', sym_address = 0x402100, sym_type = Import\<rparr>]\<rparr>)"
  by (simp add: readDescriptor_def example_image_def example_bound_descriptor_def example_pe_def
      ORDINAL_FLAG32_def importname_def ordinal_def defineSymbol_def sizeof_THUNK_def
      tolower_def char_of_eq_iff sublist_code Let_def)

theorem readDescriptor_thunks_and_addresses_witness:
  "map sym_address (defined (projr
      (readDescriptor example_image ORDINAL_FLAG32 example_descriptor example_pe))) =
     [0x402100, 0x402104] \<and>
   map name (defined (projr
      (readDescriptor example_image ORDINAL_FLAG32 example_descriptor example_pe))) =
     [''user32.dll!MessageBoxA'', ''user32.dll!Ordinal__5''] \<and>
   map sym_address (defined (projr
      (readDescriptor example_image ORDINAL_FLAG32 example_bound_descriptor example_pe))) =
     [0x402100] \<and>
   thunks_at example_image 0x2000 = [0x3000, 0x80000005, 0] \<and>
   thunks_at example_image 0x2100 = [0x77001234, 0]"
proof -
  have t: "thunks_at example_image 0x2000 = [0x3000, 0x80000005, 0]"
    "thunks_at example_image 0x2100 = [0x77001234, 0]"
    by (simp_all add: example_image_def)
  show ?thesis
    using readDescriptor_thunks_and_addresses [OF example_walk]
      readDescriptor_thunks_and_addresses [OF example_bound_walk] t
    by (simp add: example_walk example_bound_walk)
qed

text \<open>
  C8. If the selected thunk table holds a zero entry, \<^verbatim>\<open>readDescriptor\<close> returns, having
  stopped at the first zero entry, at index \<open>n\<close>: it has added exactly \<open>n\<close> symbols, all of
  kind Import, the \<open>i\<close>-th named after the \<open>i\<close>-th entry, each of these entries non-zero.
\<close>

theorem readDescriptor_walk:
  fixes img :: "'a::len word PeImage"
  assumes "tbl = (if OriginalFirstThunk d \<noteq> 0 then thunks_at img (ucast (OriginalFirstThunk d))
                  else thunks_at img (ucast (FirstThunk d)))"
    and "0 \<in> set tbl"
  shows "\<exists>pe' n. readDescriptor img ordinalflag d pe = Inr pe' \<and>
           n < length tbl \<and> tbl ! n = 0 \<and> list_all (\<lambda>t. t \<noteq> 0) (take n tbl) \<and>
           length (defined pe') = length (defined pe) + n \<and>
           take (length (defined pe)) (defined pe') = defined pe \<and>
           list_all (\<lambda>y. sym_type y = Import) (drop (length (defined pe)) (defined pe')) \<and>
           map name (drop (length (defined pe)) (defined pe')) =
             map (importname img ordinalflag (map tolower (chars_at img (ucast (Name d)))))
               (take n tbl)"
proof -
  define dll where "dll = map tolower (chars_at img (ucast (Name d)))"
  define tw where "tw = takeWhile (\<lambda>t. t \<noteq> 0) tbl"
  define syms where "syms = map (import_symbol img ordinalflag dll d pe) (List.enumerate 0 tw)"
  define pe1 where "pe1 = (if sublist ''msvbvm'' dll then pe\<lparr>petype := VisualBasic\<rparr> else pe)"
  define n where "n = length tw"
  have res: "readDescriptor img ordinalflag d pe = Inr (pe1\<lparr>defined := defined pe @ syms\<rparr>)"
    unfolding readDescriptor_result Let_def assms(1) [symmetric]
    using assms(2) by (simp add: dll_def tw_def syms_def pe1_def)
  have n_less: "n < length tbl"
  proof -
    have "length tw \<noteq> length tbl"
    proof
      assume "length tw = length tbl"
      then have "tw = tbl"
        using takeWhile_eq_take [of "\<lambda>t. t \<noteq> 0" tbl] by (simp add: tw_def)
      then show False
        using assms(2) by (auto simp add: tw_def)
    qed
    moreover have "length tw \<le> length tbl"
      unfolding tw_def by (rule length_takeWhile_le)
    ultimately show ?thesis
      by (simp add: n_def)
  qed
  have zero: "tbl ! n = 0"
    using nth_length_takeWhile [of "\<lambda>t. t \<noteq> 0" tbl] n_less by (simp add: n_def tw_def)
  have tw_take: "tw = take n tbl"
    unfolding n_def tw_def by (rule takeWhile_eq_take)
  have nonzero: "list_all (\<lambda>t. t \<noteq> 0) (take n tbl)"
    unfolding tw_take [symmetric] tw_def list_all_iff by (auto dest: set_takeWhileD)
  have len: "length syms = n"
    by (simp add: syms_def n_def)
  have types: "list_all (\<lambda>y. sym_type y = Import) syms"
    unfolding syms_def by (rule import_symbol_types)
  have names: "map name syms = map (importname img ordinalflag dll) (take n tbl)"
    unfolding syms_def tw_take [symmetric] by (rule import_symbol_names)
  show ?thesis
    using res n_less zero nonzero len types names
    by (intro exI [of _ "pe1\<lparr>defined := defined pe @ syms\<rparr>"] exI [of _ n])
      (simp add: dll_def)
qed

text \<open>Without a zero entry the walk runs off the end of what the image holds.\<close>

lemma readDescriptor_unterminated:
  fixes img :: "'a::len word PeImage"
  assumes "tbl = (if OriginalFirstThunk d \<noteq> 0 then thunks_at img (ucast (OriginalFirstThunk d))
                  else thunks_at img (ucast (FirstThunk d)))"
    and "0 \<notin> set tbl"
  shows "readDescriptor img ordinalflag d pe = Inl ReadPastEnd"
  unfolding readDescriptor_result Let_def assms(1) [symmetric]
  using assms(2) by simp

theorem readDescriptor_walk_witness:
  "(0 :: 32 word) \<in> set [0x3000, 0x80000005, 0] \<and>
   thunks_at example_image 0x2000 = [0x3000, 0x80000005, 0] \<and>
   defined (projr (readDescriptor example_image ORDINAL_FLAG32 example_descriptor example_pe)) =
     [\<lparr>name = ''user32.dll!MessageBoxA'', sym_address = 0x402100, sym_type = Import\<rparr>,
      \<lparr>name = ''user32.dll!Ordinal__5'', sym_address = 0x402104, sym_type = Import\<rparr>]"
proof -
  have tbl: "[0x3000, 0x80000005, 0 :: 32 word] =
        (if OriginalFirstThunk example_descriptor \<noteq> 0
         then thunks_at example_image (ucast (OriginalFirstThunk example_descriptor))
         else thunks_at example_image (ucast (FirstThunk example_descriptor)))"
    by (simp add: example_descriptor_def example_image_def)
  have z: "(0 :: 32 word) \<in> set [0x3000, 0x80000005, 0 :: 32 word]"
    by simp
  have t: "thunks_at example_image 0x2000 = [0x3000, 0x80000005, 0]"
    by (simp add: example_image_def)
  show ?thesis
    using readDescriptor_walk [OF tbl z, of ORDINAL_FLAG32 example_pe] t
    by (simp add: example_walk)
qed

end
